theory Spec2Isabelle
  imports Complex_Main "HOL-Library.Sublist"
begin

section \<open>Laptop recommendation: the engine and the chat front end\<close>

text \<open>
  A shallow embedding of \<^verbatim>\<open>recommendation_engine.py\<close> and \<^verbatim>\<open>chatbot.py\<close>.
  Python floats are idealised as \<^typ>\<open>real\<close> (exact arithmetic, no NaN, no infinity, no
  rounding), Python ints as \<^typ>\<open>int\<close>, and \<^verbatim>\<open>str\<close> as \<^typ>\<open>string\<close> restricted to
  ASCII: \<^verbatim>\<open>lower\<close>, \<^verbatim>\<open>upper\<close>, \<^verbatim>\<open>\d\<close>, \<^verbatim>\<open>\s\<close> and \<^verbatim>\<open>\w\<close> act on
  the ASCII classes only.
\<close>

subsection \<open>Strings\<close>

definition lower_char :: "char \<Rightarrow> char" where
  "lower_char c =
     (case map_of (zip ''ABCDEFGHIJKLMNOPQRSTUVWXYZ'' ''abcdefghijklmnopqrstuvwxyz'') c of
        Some d \<Rightarrow> d | None \<Rightarrow> c)"

definition upper_char :: "char \<Rightarrow> char" where
  "upper_char c =
     (case map_of (zip ''abcdefghijklmnopqrstuvwxyz'' ''ABCDEFGHIJKLMNOPQRSTUVWXYZ'') c of
        Some d \<Rightarrow> d | None \<Rightarrow> c)"

definition lower :: "string \<Rightarrow> string" where
  "lower s = map lower_char s"

definition upper :: "string \<Rightarrow> string" where
  "upper s = map upper_char s"

fun starts_with :: "string \<Rightarrow> string \<Rightarrow> bool" where
  "starts_with s [] = True"
| "starts_with [] (p # ps) = False"
| "starts_with (c # cs) (p # ps) = (c = p \<and> starts_with cs ps)"

text \<open>\<^verbatim>\<open>sub in s\<close> on strings: \<open>sub\<close> occurs in \<open>s\<close> as a contiguous block.\<close>

fun contains :: "string \<Rightarrow> string \<Rightarrow> bool" where
  "contains [] sub = (sub = [])"
| "contains (c # cs) sub = (starts_with (c # cs) sub \<or> contains cs sub)"

subsection \<open>The catalogue and the requirement profiles\<close>

datatype error = KeyError | ZeroDivisionError | AttributeError

text \<open>
  A catalogue entry is a dictionary; the keys read with \<^verbatim>\<open>laptop[...]\<close> are plain
  fields, the keys read with \<^verbatim>\<open>laptop.get(...)\<close> or tested with \<^verbatim>\<open>in\<close> are
  optional (\<open>None\<close> stands for a missing key and for the value \<^verbatim>\<open>None\<close> alike).
\<close>

record laptop =
  laptop_id :: string
  brand :: string
  model :: string
  price :: real
  processor :: string
  ram :: int
  storage :: int
  gpu :: "string option"
  display :: "string option"
  battery_life :: "real option"
  weight :: "real option"
  os :: "string option"

record scored_laptop = laptop +
  score :: real

text \<open>
  \<^verbatim>\<open>class UsageType(str, Enum)\<close>: the members are strings and hash as such, so a
  dictionary keyed by them is a dictionary keyed by strings, and any other string is a key
  that is not in the table.
\<close>

type_synonym UsageType = string

definition GAMING :: UsageType where "GAMING = ''gaming''"
definition BUSINESS :: UsageType where "BUSINESS = ''business''"
definition STUDENT :: UsageType where "STUDENT = ''student''"
definition CREATIVE :: UsageType where "CREATIVE = ''creative''"
definition PROGRAMMING :: UsageType where "PROGRAMMING = ''programming''"
definition GENERAL :: UsageType where "GENERAL = ''general''"

record requirements =
  req_min_ram :: "int option"
  req_min_storage :: "int option"
  req_min_battery_life :: "int option"
  req_gpu_required :: "bool option"
  req_processor_keywords :: "string list option"
  importance :: "(string \<times> real) list"

definition gaming_reqs :: requirements where
  "gaming_reqs = \<lparr> req_min_ram = Some 16, req_min_storage = Some 512,
     req_min_battery_life = None, req_gpu_required = Some True,
     req_processor_keywords = Some [''i7'', ''i9'', ''ryzen 7'', ''ryzen 9''],
     importance = [(''gpu'', 0.4), (''processor'', 0.3), (''ram'', 0.2), (''display'', 0.1)] \<rparr>"

definition business_reqs :: requirements where
  "business_reqs = \<lparr> req_min_ram = Some 8, req_min_storage = Some 256,
     req_min_battery_life = Some 8, req_gpu_required = None,
     req_processor_keywords = Some [''i5'', ''i7'', ''ryzen 5'', ''ryzen 7''],
     importance = [(''battery_life'', 0.4), (''weight'', 0.3), (''processor'', 0.2), (''ram'', 0.1)] \<rparr>"

definition student_reqs :: requirements where
  "student_reqs = \<lparr> req_min_ram = Some 8, req_min_storage = Some 256,
     req_min_battery_life = Some 6, req_gpu_required = None,
     req_processor_keywords = Some [''i3'', ''i5'', ''ryzen 3'', ''ryzen 5''],
     importance = [(''price'', 0.4), (''battery_life'', 0.3), (''weight'', 0.2), (''storage'', 0.1)] \<rparr>"

definition creative_reqs :: requirements where
  "creative_reqs = \<lparr> req_min_ram = Some 16, req_min_storage = Some 512,
     req_min_battery_life = None, req_gpu_required = Some True,
     req_processor_keywords = Some [''i7'', ''i9'', ''ryzen 7'', ''ryzen 9''],
     importance = [(''display'', 0.4), (''gpu'', 0.3), (''ram'', 0.2), (''processor'', 0.1)] \<rparr>"

definition programming_reqs :: requirements where
  "programming_reqs = \<lparr> req_min_ram = Some 16, req_min_storage = Some 512,
     req_min_battery_life = None, req_gpu_required = None,
     req_processor_keywords = Some [''i5'', ''i7'', ''ryzen 5'', ''ryzen 7''],
     importance = [(''processor'', 0.4), (''ram'', 0.3), (''battery_life'', 0.2), (''storage'', 0.1)] \<rparr>"

definition general_reqs :: requirements where
  "general_reqs = \<lparr> req_min_ram = Some 8, req_min_storage = Some 256,
     req_min_battery_life = None, req_gpu_required = None,
     req_processor_keywords = Some [''i5'', ''i7'', ''ryzen 5''],
     importance = [(''price'', 0.4), (''battery_life'', 0.3), (''processor'', 0.2), (''ram'', 0.1)] \<rparr>"

definition usage_requirements :: "UsageType \<rightharpoonup> requirements" where
  "usage_requirements = map_of
     [(GAMING, gaming_reqs), (BUSINESS, business_reqs), (STUDENT, student_reqs),
      (CREATIVE, creative_reqs), (PROGRAMMING, programming_reqs), (GENERAL, general_reqs)]"

text \<open>The members of the enumeration, in declaration order.\<close>

definition UsageType_members :: "UsageType list" where
  "UsageType_members = [GAMING, BUSINESS, STUDENT, CREATIVE, PROGRAMMING, GENERAL]"

text \<open>\<^verbatim>\<open>self.usage_requirements.get(usage_type, self.usage_requirements[UsageType.GENERAL])\<close>\<close>

definition usage_reqs_of :: "UsageType \<Rightarrow> requirements" where
  "usage_reqs_of usage_type =
     (case usage_requirements usage_type of Some r \<Rightarrow> r | None \<Rightarrow> general_reqs)"

text \<open>\<^verbatim>\<open>d.get(key, default)\<close> on an optional entry and on the importance table.\<close>

definition get_or :: "'a option \<Rightarrow> 'a \<Rightarrow> 'a" where
  "get_or v dflt = (case v of Some x \<Rightarrow> x | None \<Rightarrow> dflt)"

definition weight_of :: "(string \<times> real) list \<Rightarrow> string \<Rightarrow> real \<Rightarrow> real" where
  "weight_of imp key dflt = get_or (map_of imp key) dflt"

text \<open>\<^verbatim>\<open>laptop.get("gpu") and laptop.get("gpu") != "None"\<close>: the empty string is falsy.\<close>

definition has_gpu :: "'a laptop_scheme \<Rightarrow> bool" where
  "has_gpu l = (case gpu l of None \<Rightarrow> False | Some g \<Rightarrow> g \<noteq> [] \<and> g \<noteq> ''None'')"

subsection \<open>Filtering\<close>

text \<open>
  One invocation of \<^verbatim>\<open>_filter_laptops\<close>, as its keyword arguments. An optional
  argument left at \<^verbatim>\<open>None\<close> is \<open>None\<close>.
\<close>

record filter_call =
  fc_budget :: real
  fc_usage_type :: UsageType
  fc_brand_preference :: "string option"
  fc_min_ram :: "int option"
  fc_min_storage :: "int option"
  fc_prefer_gpu :: bool

text \<open>\<^verbatim>\<open>if brand_preference:\<close> is false for \<^verbatim>\<open>None\<close> and for the empty string.\<close>

definition filter_laptops :: "laptop list \<Rightarrow> filter_call \<Rightarrow> laptop list" where
  "filter_laptops laptop_data c =
     (let usage_reqs = usage_reqs_of (fc_usage_type c);
          min_ram = (case fc_min_ram c of None \<Rightarrow> get_or (req_min_ram usage_reqs) 4 | Some m \<Rightarrow> m);
          min_storage = (case fc_min_storage c of None \<Rightarrow> get_or (req_min_storage usage_reqs) 128
                         | Some m \<Rightarrow> m);
          results = filter (\<lambda>l. price l \<le> fc_budget c) laptop_data;
          results = filter (\<lambda>l. ram l \<ge> min_ram) results;
          results = filter (\<lambda>l. storage l \<ge> min_storage) results;
          results = (case fc_brand_preference c of
                       None \<Rightarrow> results
                     | Some b \<Rightarrow> if b = [] then results
                                else filter (\<lambda>l. lower (brand l) = lower b) results);
          results = (if get_or (req_gpu_required usage_reqs) False \<or> fc_prefer_gpu c
                     then filter has_gpu results else results)
      in results)"

subsection \<open>Scoring\<close>

definition processor_score :: "UsageType \<Rightarrow> 'a laptop_scheme \<Rightarrow> real" where
  "processor_score usage_type l =
     (if \<exists>keyword \<in> set (get_or (req_processor_keywords (usage_reqs_of usage_type)) []).
           contains (lower (processor l)) (lower keyword)
      then 1 else 0)"

text \<open>The body of the scoring loop, for a budget that is not zero.\<close>

definition laptop_score :: "UsageType \<Rightarrow> real \<Rightarrow> 'a laptop_scheme \<Rightarrow> real" where
  "laptop_score usage_type budget l =
     (let imp = importance (usage_reqs_of usage_type);
          s = 0;
          price_efficiency = 1 - price l / budget;
          s = s + weight_of imp ''price'' 0.25 * price_efficiency;
          ram_score = min 1 (real_of_int (ram l) / 32);
          s = s + weight_of imp ''ram'' 0.15 * ram_score;
          storage_score = min 1 (real_of_int (storage l) / 1000);
          s = s + weight_of imp ''storage'' 0.1 * storage_score;
          s = s + weight_of imp ''processor'' 0.2 * processor_score usage_type l;
          s = (if weight_of imp ''gpu'' 0 > 0
               then s + weight_of imp ''gpu'' 0 * (if has_gpu l then 1 else 0) else s);
          s = (case battery_life l of None \<Rightarrow> s
               | Some b \<Rightarrow> s + weight_of imp ''battery_life'' 0.1 * min 1 (b / 15));
          s = (case weight l of None \<Rightarrow> s
               | Some w \<Rightarrow> s + weight_of imp ''weight'' 0.1 * (1 - min 1 (w / 3)))
      in s)"

definition with_score :: "UsageType \<Rightarrow> real \<Rightarrow> laptop \<Rightarrow> scored_laptop" where
  "with_score usage_type budget l = laptop.extend l \<lparr> score = laptop_score usage_type budget l \<rparr>"

text \<open>
  \<^verbatim>\<open>sorted(xs, key=..., reverse=True)\<close> is a stable sort into descending key order:
  equal keys keep the order they had in \<open>xs\<close>.
\<close>

definition sorted_reverse :: "('a \<Rightarrow> real) \<Rightarrow> 'a list \<Rightarrow> 'a list" where
  "sorted_reverse key xs = sort_key (\<lambda>x. - key x) xs"

text \<open>
  \<^verbatim>\<open>_score_laptops\<close>: the division \<^verbatim>\<open>laptop["price"] / budget\<close> raises for a zero
  budget, at the first laptop.
\<close>

definition score_laptops :: "laptop list \<Rightarrow> UsageType \<Rightarrow> real \<Rightarrow> error + scored_laptop list" where
  "score_laptops laptops usage_type budget =
     (if laptops = [] then Inr []
      else if budget = 0 then Inl ZeroDivisionError
      else Inr (sorted_reverse score (map (with_score usage_type budget) laptops)))"

subsection \<open>Recommendations\<close>

text \<open>The slice \<^verbatim>\<open>xs[:limit]\<close>; a negative limit counts from the end.\<close>

definition slice_to :: "int \<Rightarrow> 'a list \<Rightarrow> 'a list" where
  "slice_to limit xs =
     (if 0 \<le> limit then take (nat limit) xs else take (length xs - nat (- limit)) xs)"

definition strict_call :: "real \<Rightarrow> UsageType \<Rightarrow> string option \<Rightarrow> int option \<Rightarrow> int option \<Rightarrow> bool
    \<Rightarrow> filter_call" where
  "strict_call budget usage_type brand_preference min_ram min_storage prefer_gpu =
     \<lparr> fc_budget = budget, fc_usage_type = usage_type, fc_brand_preference = brand_preference,
       fc_min_ram = min_ram, fc_min_storage = min_storage, fc_prefer_gpu = prefer_gpu \<rparr>"

text \<open>
  The arguments of the second call. \<^verbatim>\<open>self.usage_requirements[usage_type]\<close> is a plain
  subscript: it raises \<^verbatim>\<open>KeyError\<close> for a key that is not in the table.
\<close>

definition relaxed_call :: "real \<Rightarrow> UsageType \<Rightarrow> bool \<Rightarrow> error + filter_call" where
  "relaxed_call budget usage_type prefer_gpu =
     (case usage_requirements usage_type of
        None \<Rightarrow> Inl KeyError
      | Some r \<Rightarrow> Inr \<lparr> fc_budget = budget * 1.1, fc_usage_type = usage_type,
                     fc_brand_preference = None,
                     fc_min_ram = Some (get_or (req_min_ram r) 4),
                     fc_min_storage = Some (get_or (req_min_storage r) 128),
                     fc_prefer_gpu = prefer_gpu \<rparr>)"

text \<open>
  \<^verbatim>\<open>get_recommendations\<close>, returning the invocations of \<^verbatim>\<open>_filter_laptops\<close> it made,
  in order, next to its result.
\<close>

definition get_recommendations_run ::
  "laptop list \<Rightarrow> real \<Rightarrow> UsageType \<Rightarrow> string option \<Rightarrow> int option \<Rightarrow> int option \<Rightarrow> bool \<Rightarrow> int
    \<Rightarrow> filter_call list \<times> (error + scored_laptop list)" where
  "get_recommendations_run laptop_data budget usage_type brand_preference min_ram min_storage
       prefer_gpu limit =
     (let c1 = strict_call budget usage_type brand_preference min_ram min_storage prefer_gpu;
          filtered_laptops = filter_laptops laptop_data c1
      in if filtered_laptops = []
         then (case relaxed_call budget usage_type prefer_gpu of
                 Inl e \<Rightarrow> ([c1], Inl e)
               | Inr c2 \<Rightarrow>
                   ([c1, c2],
                    map_sum id (slice_to limit)
                      (score_laptops (filter_laptops laptop_data c2) usage_type budget)))
         else ([c1],
               map_sum id (slice_to limit) (score_laptops filtered_laptops usage_type budget)))"

definition get_recommendations ::
  "laptop list \<Rightarrow> real \<Rightarrow> UsageType \<Rightarrow> string option \<Rightarrow> int option \<Rightarrow> int option \<Rightarrow> bool \<Rightarrow> int
    \<Rightarrow> error + scored_laptop list" where
  "get_recommendations laptop_data budget usage_type brand_preference min_ram min_storage
       prefer_gpu limit =
     snd (get_recommendations_run laptop_data budget usage_type brand_preference min_ram
            min_storage prefer_gpu limit)"

text \<open>A catalogue entry with its display description blanked out.\<close>

definition without_display :: "'a laptop_scheme \<Rightarrow> 'a laptop_scheme" where
  "without_display l = l\<lparr> display := None \<rparr>"

subsection \<open>A two-entry catalogue\<close>

definition dell_example :: laptop where
  "dell_example = \<lparr> laptop_id = ''1'', brand = ''Dell'', model = ''XPS'', price = 1200,
     processor = ''i7'', ram = 16, storage = 512, gpu = None, display = None,
     battery_life = None, weight = None, os = None \<rparr>"

definition apple_example :: laptop where
  "apple_example = \<lparr> laptop_id = ''2'', brand = ''Apple'', model = ''Air'', price = 1100,
     processor = ''M2'', ram = 8, storage = 256, gpu = Some ''M2 GPU'', display = None,
     battery_life = None, weight = None, os = None \<rparr>"

definition example_catalog :: "laptop list" where
  "example_catalog = [dell_example, apple_example]"

section \<open>Regular expressions\<close>

text \<open>
  The fragment of Python's \<^verbatim>\<open>re\<close> syntax that the chat patterns use, matched the way a
  backtracking matcher does: alternatives left to right, repetition greedy. Every pattern
  is compiled with \<^verbatim>\<open>re.IGNORECASE\<close>, so a literal matches either case. No pattern has
  more than one capturing group; \<open>Group\<close> is group 1.
\<close>

definition is_digit :: "char \<Rightarrow> bool" where
  "is_digit c = (c \<in> set ''0123456789'')"

definition is_space :: "char \<Rightarrow> bool" where
  "is_space c = (c \<in> set [CHR 0x09, CHR 0x0A, CHR 0x0B, CHR 0x0C, CHR 0x0D,
                           CHR 0x1C, CHR 0x1D, CHR 0x1E, CHR 0x1F, CHR 0x20])"

definition is_word :: "char \<Rightarrow> bool" where
  "is_word c = (c \<in> set (''abcdefghijklmnopqrstuvwxyz'' @ ''ABCDEFGHIJKLMNOPQRSTUVWXYZ''
                          @ ''0123456789_''))"

datatype regex =
    Lit char
  | Digit
  | Space
  | WordChar
  | Eps
  | Seq regex regex
  | Alt regex regex
  | Star regex
  | Group regex
  | WordBoundary
  | Bol
  | Eol

text \<open>
  A position of the matcher: the character before the position (\<open>None\<close> at the start of
  the string), the text from the position on, and the text of group 1 so far.
\<close>

type_synonym mstate = "char option \<times> string \<times> string option"

definition word_at :: "char option \<Rightarrow> bool" where
  "word_at c = (case c of None \<Rightarrow> False | Some d \<Rightarrow> is_word d)"

definition next_char :: "string \<Rightarrow> char option" where
  "next_char s = (case s of [] \<Rightarrow> None | c # _ \<Rightarrow> Some c)"

text \<open>
  All the ways the expression matches at a position, in the order a backtracking matcher
  tries them; the head of the list is the match it reports. An iteration of a starred
  expression that consumes nothing is not repeated.
\<close>

function rmatch :: "regex \<Rightarrow> mstate \<Rightarrow> mstate list" where
  "rmatch (Lit c) (p, s, g) =
     (case s of [] \<Rightarrow> []
      | d # ds \<Rightarrow> if lower_char d = lower_char c then [(Some d, ds, g)] else [])"
| "rmatch Digit (p, s, g) =
     (case s of [] \<Rightarrow> [] | d # ds \<Rightarrow> if is_digit d then [(Some d, ds, g)] else [])"
| "rmatch Space (p, s, g) =
     (case s of [] \<Rightarrow> [] | d # ds \<Rightarrow> if is_space d then [(Some d, ds, g)] else [])"
| "rmatch WordChar (p, s, g) =
     (case s of [] \<Rightarrow> [] | d # ds \<Rightarrow> if is_word d then [(Some d, ds, g)] else [])"
| "rmatch Eps (p, s, g) = [(p, s, g)]"
| "rmatch (Seq a b) (p, s, g) = concat (map (rmatch b) (rmatch a (p, s, g)))"
| "rmatch (Alt a b) (p, s, g) = rmatch a (p, s, g) @ rmatch b (p, s, g)"
| "rmatch (Star a) (p, s, g) =
     concat (map (\<lambda>st. if length (fst (snd st)) < length s then rmatch (Star a) st else [])
               (rmatch a (p, s, g)))
     @ [(p, s, g)]"
| "rmatch (Group a) (p, s, g) =
     map (\<lambda>st. (fst st, fst (snd st), Some (take (length s - length (fst (snd st))) s)))
       (rmatch a (p, s, g))"
| "rmatch WordBoundary (p, s, g) =
     (if word_at p \<noteq> word_at (next_char s) then [(p, s, g)] else [])"
| "rmatch Bol (p, s, g) = (if p = None then [(p, s, g)] else [])"
| "rmatch Eol (p, s, g) = (if s = [] \<or> s = [CHR 0x0A] then [(p, s, g)] else [])"
  by pat_completeness auto
termination
  by (relation "inv_image (less_than <*lex*> less_than)
                  (\<lambda>(r, p, s, g). (size r, length s))") auto

text \<open>A match object: \<^verbatim>\<open>group(0)\<close> and \<^verbatim>\<open>group(1)\<close>.\<close>

record match =
  group0 :: string
  group1 :: "string option"

text \<open>\<^verbatim>\<open>re.search\<close>: the first position, from the left, at which the expression matches.\<close>

fun search_from :: "regex \<Rightarrow> char option \<Rightarrow> string \<Rightarrow> match option" where
  "search_from r p [] =
     (case rmatch r (p, [], None) of
        [] \<Rightarrow> None
      | st # _ \<Rightarrow> Some \<lparr> group0 = [], group1 = snd (snd st) \<rparr>)"
| "search_from r p (c # cs) =
     (case rmatch r (p, c # cs, None) of
        [] \<Rightarrow> search_from r (Some c) cs
      | st # _ \<Rightarrow> Some \<lparr> group0 = take (length (c # cs) - length (fst (snd st))) (c # cs),
                         group1 = snd (snd st) \<rparr>)"

definition re_search :: "regex \<Rightarrow> string \<Rightarrow> match option" where
  "re_search r s = search_from r None s"

subsection \<open>Writing patterns\<close>

text \<open>A literal string, \<^verbatim>\<open>x?\<close>, \<^verbatim>\<open>x+\<close>, \<^verbatim>\<open>(?:a|b|...)\<close> and \<^verbatim>\<open>x{m,n}\<close>.\<close>

fun Str :: "string \<Rightarrow> regex" where
  "Str [] = Eps"
| "Str [c] = Lit c"
| "Str (c # cs) = Seq (Lit c) (Str cs)"

definition Opt :: "regex \<Rightarrow> regex" where
  "Opt r = Alt r Eps"

definition Plus :: "regex \<Rightarrow> regex" where
  "Plus r = Seq r (Star r)"

fun Alts :: "regex \<Rightarrow> regex list \<Rightarrow> regex" where
  "Alts r [] = r"
| "Alts r (q # qs) = Alt r (Alts q qs)"

definition Words :: "string \<Rightarrow> string list \<Rightarrow> regex" where
  "Words w ws = Alts (Str w) (map Str ws)"

fun Seqs :: "regex list \<Rightarrow> regex" where
  "Seqs [] = Eps"
| "Seqs [r] = r"
| "Seqs (r # rs) = Seq r (Seqs rs)"

fun Times :: "nat \<Rightarrow> regex \<Rightarrow> regex" where
  "Times 0 r = Eps"
| "Times (Suc n) r = Seq r (Times n r)"

fun AtMost :: "nat \<Rightarrow> regex \<Rightarrow> regex" where
  "AtMost 0 r = Eps"
| "AtMost (Suc n) r = Opt (Seq r (AtMost n r))"

definition Rep :: "nat \<Rightarrow> nat \<Rightarrow> regex \<Rightarrow> regex" where
  "Rep m n r = Seq (Times m r) (AtMost (n - m) r)"

section \<open>The chat front end\<close>

subsection \<open>The patterns\<close>

text \<open>\<^verbatim>\<open>\d{3,5}(?:,\d{3})*\<close>, the capturing group of every budget pattern.\<close>

definition amount :: regex where
  "amount = Seq (Rep 3 5 Digit) (Star (Seq (Lit CHR '','') (Times 3 Digit)))"

definition budget_patterns :: "regex list" where
  "budget_patterns =
     [Seqs [Opt (Lit CHR ''$''), Group amount,
            Opt (Seq (Star Space) (Words ''dollars'' [''USD'', ''bucks'']))],
      Seqs [Str ''budget'', Star Space, Opt (Words ''is'' [''of'']), Star Space,
            Opt (Lit CHR ''$''), Group amount],
      Seqs [Str ''spend'', Star Space, Opt (Str ''up to''), Star Space,
            Opt (Lit CHR ''$''), Group amount],
      Seqs [Words ''under'' [''below'', ''less than''], Star Space,
            Opt (Lit CHR ''$''), Group amount],
      Seqs [Opt (Words ''max'' [''maximum'']), Star Space, Opt (Words ''budget'' [''price'']),
            Star Space, Opt (Str ''of''), Star Space, Opt (Lit CHR ''$''), Group amount]]"

text \<open>The usage table, in the insertion order of the dictionary.\<close>

definition usage_patterns :: "(UsageType \<times> regex list) list" where
  "usage_patterns =
     [(GAMING, [Words ''gaming'' [''games'', ''gamer'', ''play games''],
                Words ''fps'' [''shooter'', ''mmo'', ''rpg'', ''strategy'', ''simulation'']]),
      (BUSINESS, [Words ''business'' [''work'', ''office'', ''professional'', ''corporate''],
                  Words ''presentations'' [''spreadsheets'', ''documents'', ''meetings'']]),
      (STUDENT, [Words ''student'' [''school'', ''college'', ''university'', ''campus'',
                                     ''education''],
                 Words ''study'' [''studying'', ''coursework'', ''assignments'', ''homework'']]),
      (CREATIVE, [Words ''creative'' [''design'', ''art'', ''artist'', ''creator''],
                  Words ''photo'' [''video'', ''editing'', ''photoshop'', ''illustrator'',
                                   ''premiere'', ''after effects'']]),
      (PROGRAMMING, [Words ''programming'' [''coding'', ''development'', ''developer'',
                                            ''software''],
                     Words ''code'' [''compile'', ''development'', ''IDE'', ''programming'']])]"

definition brand_pattern :: regex where
  "brand_pattern =
     Seqs [Words ''prefer'' [''want'', ''like''], Plus Space,
           Opt (Seq (Lit CHR ''a'') (Plus Space)), Group (Plus WordChar),
           Opt (Seq (Plus Space) (Str ''laptop''))]"

definition ram_pattern :: regex where
  "ram_pattern =
     Seqs [Group (Plus Digit), Star Space,
           Opt (Alt (Str ''GB'') (Seq (Str ''gig'') (Opt (Lit CHR ''s'')))),
           Star Space, Opt (Str ''of''), Star Space, Words ''RAM'' [''memory'']]"

definition storage_pattern :: regex where
  "storage_pattern =
     Seqs [Group (Plus Digit), Star Space,
           Opt (Alts (Str ''GB'') [Str ''TB'', Seq (Str ''gig'') (Opt (Lit CHR ''s''))]),
           Star Space, Opt (Str ''of''), Star Space,
           Words ''storage'' [''SSD'', ''hard drive'', ''HDD'']]"

definition gpu_pattern :: regex where
  "gpu_pattern =
     Seqs [Words ''dedicated'' [''good'', ''gaming''], Plus Space, Words ''GPU'' [''graphics'']]"

definition greeting_patterns :: "regex list" where
  "greeting_patterns =
     [Seqs [WordBoundary, Words ''hi'' [''hello'', ''hey'', ''greetings'', ''howdy''],
            WordBoundary],
      Seqs [WordBoundary, Str ''good'', Plus Space,
            Words ''morning'' [''afternoon'', ''evening''], WordBoundary],
      Seqs [Bol, Words ''start'' [''begin'', ''help''], Eol]]"

definition common_brands :: "string list" where
  "common_brands = [''dell'', ''hp'', ''lenovo'', ''asus'', ''acer'', ''apple'', ''microsoft'',
                    ''msi'', ''razer'']"

subsection \<open>Numbers in text\<close>

definition digit_value :: "char \<Rightarrow> nat" where
  "digit_value c = of_char c - 48"

definition decimal :: "string \<Rightarrow> nat" where
  "decimal s = foldl (\<lambda>n c. 10 * n + digit_value c) 0 s"

text \<open>
  \<^verbatim>\<open>int(s)\<close> and \<^verbatim>\<open>float(s)\<close> on a non-empty string of digits, which is all a
  group of the patterns above hands them; any other text is answered by \<open>None\<close>, for
  \<^verbatim>\<open>ValueError\<close>.
\<close>

definition py_int :: "string \<Rightarrow> int option" where
  "py_int s = (if s \<noteq> [] \<and> list_all is_digit s then Some (int (decimal s)) else None)"

definition py_float :: "string \<Rightarrow> real option" where
  "py_float s = (if s \<noteq> [] \<and> list_all is_digit s then Some (real (decimal s)) else None)"

text \<open>The decimal numeral of a natural number, \<^verbatim>\<open>str(n)\<close>.\<close>

definition digit_char :: "nat \<Rightarrow> char" where
  "digit_char n = ''0123456789'' ! (n mod 10)"

fun str_nat :: "nat \<Rightarrow> string" where
  "str_nat n = (if n < 10 then [digit_char n] else str_nat (n div 10) @ [digit_char (n mod 10)])"

text \<open>\<^verbatim>\<open>s.replace(',', '')\<close>\<close>

definition remove_commas :: "string \<Rightarrow> string" where
  "remove_commas s = filter (\<lambda>c. c \<noteq> CHR '','') s"

subsection \<open>Extracting preferences\<close>

text \<open>
  The preference dictionary: a key that is absent is \<open>None\<close>. \<^verbatim>\<open>dict.update\<close>
  overwrites the keys of its argument and leaves the others.
\<close>

record prefs =
  pref_budget :: "real option"
  pref_usage_type :: "UsageType option"
  pref_brand_preference :: "string option"
  pref_min_ram :: "int option"
  pref_min_storage :: "int option"
  pref_prefer_gpu :: "bool option"

definition no_prefs :: prefs where
  "no_prefs = \<lparr> pref_budget = None, pref_usage_type = None, pref_brand_preference = None,
     pref_min_ram = None, pref_min_storage = None, pref_prefer_gpu = None \<rparr>"

definition override :: "'a option \<Rightarrow> 'a option \<Rightarrow> 'a option" where
  "override old new = (case new of None \<Rightarrow> old | Some v \<Rightarrow> Some v)"

definition update_prefs :: "prefs \<Rightarrow> prefs \<Rightarrow> prefs" where
  "update_prefs old new =
     \<lparr> pref_budget = override (pref_budget old) (pref_budget new),
       pref_usage_type = override (pref_usage_type old) (pref_usage_type new),
       pref_brand_preference = override (pref_brand_preference old) (pref_brand_preference new),
       pref_min_ram = override (pref_min_ram old) (pref_min_ram new),
       pref_min_storage = override (pref_min_storage old) (pref_min_storage new),
       pref_prefer_gpu = override (pref_prefer_gpu old) (pref_prefer_gpu new) \<rparr>"

text \<open>
  The budget loop: the first pattern that matches and whose group converts ends the loop;
  \<^verbatim>\<open>ValueError\<close> is caught and the loop goes on. \<^verbatim>\<open>match.group(1)\<close> of a group that
  took no part in the match is \<^verbatim>\<open>None\<close>, and calling a string method on it raises
  \<^verbatim>\<open>AttributeError\<close>.
\<close>

fun extract_budget :: "regex list \<Rightarrow> string \<Rightarrow> error + real option" where
  "extract_budget [] message = Inr None"
| "extract_budget (pattern # patterns) message =
     (case re_search pattern message of
        None \<Rightarrow> extract_budget patterns message
      | Some m \<Rightarrow>
          (case group1 m of
             None \<Rightarrow> Inl AttributeError
           | Some g \<Rightarrow>
               (case py_float (remove_commas g) of
                  Some v \<Rightarrow> Inr (Some v)
                | None \<Rightarrow> extract_budget patterns message)))"

definition matches_any :: "regex list \<Rightarrow> string \<Rightarrow> bool" where
  "matches_any patterns message = list_ex (\<lambda>pattern. re_search pattern message \<noteq> None) patterns"

definition extract_usage_type :: "string \<Rightarrow> UsageType option" where
  "extract_usage_type message =
     map_option fst (find (\<lambda>(usage_type, patterns). matches_any patterns message) usage_patterns)"

definition extract_brand :: "string \<Rightarrow> error + string option" where
  "extract_brand message =
     (case re_search brand_pattern message of
        None \<Rightarrow> Inr None
      | Some m \<Rightarrow>
          (case group1 m of
             None \<Rightarrow> Inl AttributeError
           | Some g \<Rightarrow> if lower g \<in> set common_brands then Inr (Some (lower g)) else Inr None))"

text \<open>\<^verbatim>\<open>int(None)\<close> raises \<^verbatim>\<open>TypeError\<close>, which is not caught; it is reported as the
  same error as the other uses of an absent group.\<close>

definition extract_ram :: "string \<Rightarrow> error + int option" where
  "extract_ram message =
     (case re_search ram_pattern message of
        None \<Rightarrow> Inr None
      | Some m \<Rightarrow>
          (case group1 m of
             None \<Rightarrow> Inl AttributeError
           | Some g \<Rightarrow> Inr (py_int g)))"

definition extract_storage :: "string \<Rightarrow> error + int option" where
  "extract_storage message =
     (case re_search storage_pattern message of
        None \<Rightarrow> Inr None
      | Some m \<Rightarrow>
          (case group1 m of
             None \<Rightarrow> Inl AttributeError
           | Some g \<Rightarrow>
               (case py_int g of
                  None \<Rightarrow> Inr None
                | Some storage_value \<Rightarrow>
                    Inr (Some (if contains (upper (group0 m)) ''TB''
                               then storage_value * 1000 else storage_value)))))"

definition extract_gpu :: "string \<Rightarrow> bool option" where
  "extract_gpu message = (if re_search gpu_pattern message \<noteq> None then Some True else None)"

definition extract_preferences :: "string \<Rightarrow> error + prefs" where
  "extract_preferences message =
     (case extract_budget budget_patterns message of
        Inl e \<Rightarrow> Inl e
      | Inr b \<Rightarrow>
     (case extract_brand message of
        Inl e \<Rightarrow> Inl e
      | Inr br \<Rightarrow>
     (case extract_ram message of
        Inl e \<Rightarrow> Inl e
      | Inr r \<Rightarrow>
     (case extract_storage message of
        Inl e \<Rightarrow> Inl e
      | Inr st \<Rightarrow>
          Inr \<lparr> pref_budget = b, pref_usage_type = extract_usage_type message,
                pref_brand_preference = br, pref_min_ram = r, pref_min_storage = st,
                pref_prefer_gpu = extract_gpu message \<rparr>))))"

definition is_greeting :: "string \<Rightarrow> bool" where
  "is_greeting message = matches_any greeting_patterns message"

definition has_sufficient_preferences :: "prefs \<Rightarrow> bool" where
  "has_sufficient_preferences preferences =
     (pref_budget preferences \<noteq> None \<and> pref_usage_type preferences \<noteq> None)"

subsection \<open>Conversations\<close>

record chat_message =
  msg_text :: string
  msg_sender :: string
  msg_timestamp :: string

record conversation =
  preferences :: prefs
  messages :: "chat_message list"
  stage :: string

record ChatRequest =
  request_message :: string
  request_conversation_id :: "string option"

record ChatResponse =
  response_message :: string
  response_recommendations :: "scored_laptop list option"
  response_conversation_id :: string
  response_extracted_preferences :: "prefs option"

text \<open>
  What a call takes from its surroundings: the identifier \<^verbatim>\<open>uuid.uuid4()\<close> would
  draw, the two readings of the clock, and the two renderings of a float
  (\<^verbatim>\<open>str(x)\<close> and \<^verbatim>\<open>f"{x:.2f}"\<close>), which are left open.
\<close>

record environment =
  uuid4 :: string
  now_user :: string
  now_bot :: string
  str_float :: "real \<Rightarrow> string"
  format_2f :: "real \<Rightarrow> string"

text \<open>\<^verbatim>\<open>s.strip()\<close>\<close>

definition strip :: "string \<Rightarrow> string" where
  "strip s = rev (dropWhile is_space (rev (dropWhile is_space s)))"

definition str_int :: "int \<Rightarrow> string" where
  "str_int i = (if i < 0 then CHR ''-'' # str_nat (nat (- i)) else str_nat (nat i))"

definition newline :: string where
  "newline = [CHR 0x0A]"

text \<open>The arguments \<^verbatim>\<open>_get_recommendations\<close> passes to the engine; the limit is left at 5.\<close>

type_synonym engine_call = filter_call

definition recommendation_call :: "prefs \<Rightarrow> engine_call" where
  "recommendation_call p =
     \<lparr> fc_budget = get_or (pref_budget p) 1000,
       fc_usage_type = get_or (pref_usage_type p) GENERAL,
       fc_brand_preference = pref_brand_preference p,
       fc_min_ram = pref_min_ram p,
       fc_min_storage = pref_min_storage p,
       fc_prefer_gpu = get_or (pref_prefer_gpu p) False \<rparr>"

definition chat_get_recommendations :: "laptop list \<Rightarrow> prefs \<Rightarrow> error + scored_laptop list" where
  "chat_get_recommendations laptop_data p =
     (let c = recommendation_call p
      in get_recommendations laptop_data (fc_budget c) (fc_usage_type c) (fc_brand_preference c)
           (fc_min_ram c) (fc_min_storage c) (fc_prefer_gpu c) 5)"

definition format_entry :: "environment \<Rightarrow> nat \<Rightarrow> scored_laptop \<Rightarrow> string" where
  "format_entry env i l =
     str_nat i @ ''. '' @ brand l @ '' '' @ model l @ newline
     @ ''   Price: $'' @ format_2f env (price l) @ newline
     @ ''   Specs: '' @ processor l @ '', '' @ str_int (ram l) @ ''GB RAM, ''
       @ str_int (storage l) @ ''GB storage'' @ newline
     @ (case gpu l of
          None \<Rightarrow> []
        | Some g \<Rightarrow> if g \<noteq> [] \<and> g \<noteq> ''None'' then ''   GPU: '' @ g @ newline else [])
     @ (case battery_life l of
          None \<Rightarrow> []
        | Some b \<Rightarrow> if b \<noteq> 0 then ''   Battery: '' @ str_float env b @ '' hours'' @ newline
                    else [])
     @ newline"

definition format_recommendations :: "environment \<Rightarrow> scored_laptop list \<Rightarrow> string" where
  "format_recommendations env recommendations =
     (if recommendations = [] then ''No laptops found matching your criteria.''
      else concat (map (\<lambda>(i, l). format_entry env i l)
                     (zip [1 ..< Suc (length recommendations)] recommendations)))"

definition budget_question :: string where
  "budget_question = ''What's your budget for a new laptop?''"

definition ask_for_missing_preferences :: "environment \<Rightarrow> prefs \<Rightarrow> string" where
  "ask_for_missing_preferences env p =
     (case pref_budget p of
        None \<Rightarrow> budget_question
      | Some b \<Rightarrow>
          if pref_usage_type p = None
          then ''Thanks for providing your budget ($'' @ str_float env b
               @ ''). What will you primarily use this laptop for? ''
               @ ''(e.g., gaming, business, student, creative work, programming)''
          else if pref_brand_preference p = None
          then ''Do you have a preferred brand? (e.g., Dell, HP, Lenovo, Asus, Apple)''
          else ''Can you tell me more about what you're looking for in a laptop? ''
               @ ''Any specific features that are important to you?'')"

definition greeting_text :: string where
  "greeting_text = ''Hello! I'm your laptop recommendation assistant. ''
     @ ''I can help you find the perfect laptop based on your needs. ''
     @ ''What's your budget for a new laptop?''"

definition no_match_text :: string where
  "no_match_text = ''I couldn't find any laptops matching your exact criteria. ''
     @ ''Would you like to adjust your budget or requirements?''"

definition recommendations_text :: "environment \<Rightarrow> scored_laptop list \<Rightarrow> string" where
  "recommendations_text env recommendations =
     ''Based on your preferences, here are some recommended laptops:'' @ newline @ newline
     @ format_recommendations env (take 3 recommendations) @ newline @ newline
     @ ''Would you like more details about any of these options? ''
     @ ''Or would you like to refine your search?''"

text \<open>
  The common end of \<^verbatim>\<open>process_message\<close>: the reply is appended to the history and
  returned without recommendations. The second component lists the calls made to the
  recommendation engine.
\<close>

definition bot_reply ::
  "environment \<Rightarrow> (string \<rightharpoonup> conversation) \<Rightarrow> string \<Rightarrow> conversation \<Rightarrow> string
    \<Rightarrow> engine_call list
    \<Rightarrow> (string \<rightharpoonup> conversation) \<times> engine_call list \<times> (error + ChatResponse)" where
  "bot_reply env conversations conversation_id conv response_text calls =
     (conversations(conversation_id \<mapsto>
        conv\<lparr> messages := messages conv
                 @ [\<lparr> msg_text = response_text, msg_sender = ''bot'',
                      msg_timestamp = now_bot env \<rparr>] \<rparr>),
      calls,
      Inr \<lparr> response_message = response_text, response_recommendations = None,
            response_conversation_id = conversation_id,
            response_extracted_preferences = Some (preferences conv) \<rparr>)"

text \<open>
  The branching of \<^verbatim>\<open>process_message\<close>, from \<^verbatim>\<open>if conversation["stage"] == "greeting"\<close>
  on: \<open>conv\<close> is the conversation with the user message appended and the extracted
  preferences merged in.
\<close>

definition respond ::
  "environment \<Rightarrow> laptop list \<Rightarrow> (string \<rightharpoonup> conversation) \<Rightarrow> string \<Rightarrow> conversation
    \<Rightarrow> string
    \<Rightarrow> (string \<rightharpoonup> conversation) \<times> engine_call list \<times> (error + ChatResponse)" where
  "respond env laptop_data conversations conversation_id conv message =
     (if stage conv = ''greeting'' \<or> is_greeting message
      then bot_reply env conversations conversation_id
             (conv\<lparr> stage := ''getting_preferences'' \<rparr>) greeting_text []
      else if has_sufficient_preferences (preferences conv)
      then (case chat_get_recommendations laptop_data (preferences conv) of
              Inl e \<Rightarrow> (conversations(conversation_id \<mapsto> conv),
                        [recommendation_call (preferences conv)], Inl e)
            | Inr recommendations \<Rightarrow>
                if recommendations \<noteq> []
                then (conversations(conversation_id \<mapsto> conv\<lparr> stage := ''recommendations'' \<rparr>),
                      [recommendation_call (preferences conv)],
                      Inr \<lparr> response_message = recommendations_text env recommendations,
                            response_recommendations = Some (take 3 recommendations),
                            response_conversation_id = conversation_id,
                            response_extracted_preferences = Some (preferences conv) \<rparr>)
                else bot_reply env conversations conversation_id conv no_match_text
                       [recommendation_call (preferences conv)])
      else bot_reply env conversations conversation_id conv
             (ask_for_missing_preferences env (preferences conv)) [])"

text \<open>\<^verbatim>\<open>request.conversation_id or str(uuid.uuid4())\<close>\<close>

definition resolve_conversation_id :: "environment \<Rightarrow> ChatRequest \<Rightarrow> string" where
  "resolve_conversation_id env request =
     (case request_conversation_id request of
        None \<Rightarrow> uuid4 env
      | Some c \<Rightarrow> if c = [] then uuid4 env else c)"

text \<open>
  \<^verbatim>\<open>process_message\<close>, as a function of the conversation table: it returns the new
  table, the calls it made to the recommendation engine, and the response or the exception
  that escaped. The table is updated in place in the source, so what was stored before an
  exception stays stored.
\<close>

definition process_message ::
  "environment \<Rightarrow> laptop list \<Rightarrow> (string \<rightharpoonup> conversation) \<Rightarrow> ChatRequest
    \<Rightarrow> (string \<rightharpoonup> conversation) \<times> engine_call list \<times> (error + ChatResponse)" where
  "process_message env laptop_data conversations request =
     (let message = strip (request_message request);
          conversation_id = resolve_conversation_id env request;
          conv = (case conversations conversation_id of
                    None \<Rightarrow> \<lparr> preferences = no_prefs, messages = [], stage = ''greeting'' \<rparr>
                  | Some c \<Rightarrow> c);
          conv = conv\<lparr> messages := messages conv
                   @ [\<lparr> msg_text = message, msg_sender = ''user'',
                        msg_timestamp = now_user env \<rparr>] \<rparr>
      in case extract_preferences message of
           Inl e \<Rightarrow> (conversations(conversation_id \<mapsto> conv), [], Inl e)
         | Inr extracted_preferences \<Rightarrow>
             respond env laptop_data conversations conversation_id
               (conv\<lparr> preferences := update_prefs (preferences conv) extracted_preferences \<rparr>)
               message)"

text \<open>The keys present in a preference dictionary.\<close>

definition pref_keys :: "prefs \<Rightarrow> string list" where
  "pref_keys p =
     (if pref_budget p \<noteq> None then [''budget''] else [])
     @ (if pref_usage_type p \<noteq> None then [''usage_type''] else [])
     @ (if pref_brand_preference p \<noteq> None then [''brand_preference''] else [])
     @ (if pref_min_ram p \<noteq> None then [''min_ram''] else [])
     @ (if pref_min_storage p \<noteq> None then [''min_storage''] else [])
     @ (if pref_prefer_gpu p \<noteq> None then [''prefer_gpu''] else [])"

text \<open>A conversation under way, for the examples.\<close>

definition example_environment :: environment where
  "example_environment = \<lparr> uuid4 = ''fresh'', now_user = ''t1'', now_bot = ''t2'',
     str_float = (\<lambda>x. ''?''), format_2f = (\<lambda>x. ''?'') \<rparr>"




definition example_greeting_request :: ChatRequest where
  "example_greeting_request =
     \<lparr> request_message = ''hi, gaming for $1300'', request_conversation_id = None \<rparr>"

section \<open>What a pattern can match\<close>

text \<open>
  The texts an expression can consume, whatever the position (an anchor or a word boundary
  consumes nothing), and the texts its group can hold.
\<close>

inductive_set star :: "string set \<Rightarrow> string set" for A :: "string set" where
  star_empty: "[] \<in> star A"
| star_step: "u \<in> A \<Longrightarrow> v \<in> star A \<Longrightarrow> u @ v \<in> star A"

fun lang :: "regex \<Rightarrow> string set" where
  "lang (Lit c) = {[d] | d. lower_char d = lower_char c}"
| "lang Digit = {[d] | d. is_digit d}"
| "lang Space = {[d] | d. is_space d}"
| "lang WordChar = {[d] | d. is_word d}"
| "lang Eps = {[]}"
| "lang (Seq a b) = {u @ v | u v. u \<in> lang a \<and> v \<in> lang b}"
| "lang (Alt a b) = lang a \<union> lang b"
| "lang (Star a) = star (lang a)"
| "lang (Group a) = lang a"
| "lang WordBoundary = {[]}"
| "lang Bol = {[]}"
| "lang Eol = {[]}"

fun group_lang :: "regex \<Rightarrow> string set" where
  "group_lang (Seq a b) = group_lang a \<union> group_lang b"
| "group_lang (Alt a b) = group_lang a \<union> group_lang b"
| "group_lang (Star a) = group_lang a"
| "group_lang (Group a) = lang a"
| "group_lang r = {}"

text \<open>The group takes part in every match of the expression.\<close>

fun sets_group :: "regex \<Rightarrow> bool" where
  "sets_group (Seq a b) = (sets_group a \<or> sets_group b)"
| "sets_group (Alt a b) = (sets_group a \<and> sets_group b)"
| "sets_group (Group a) = True"
| "sets_group r = False"

subsection \<open>Runs of digits in an utterance\<close>

text \<open>The text starts with three digits; the text has three digits in a row somewhere.\<close>

fun digits3 :: "string \<Rightarrow> bool" where
  "digits3 (a # b # c # s) = (is_digit a \<and> is_digit b \<and> is_digit c)"
| "digits3 s = False"


text \<open>
  What may follow a number for the number to end there: nothing, or a character that is
  not a digit and does not open a further \<^verbatim>\<open>,ddd\<close> group.
\<close>

fun token_end :: "string \<Rightarrow> bool" where
  "token_end [] = True"
| "token_end (c # s) = (\<not> is_digit c \<and> \<not> (c = CHR '','' \<and> digits3 s))"
section \<open>Properties of the recommendation engine\<close>


lemma length_slice_to: "0 \<le> limit \<Longrightarrow> length (slice_to limit xs) \<le> nat limit"
  by (simp add: slice_to_def)

lemma set_sorted_reverse [simp]: "set (sorted_reverse key xs) = set xs"
  by (simp add: sorted_reverse_def)

lemma price_with_score [simp]: "price (with_score u b l) = price l"
  by (simp add: with_score_def laptop.defs)

lemma truncate_with_score [simp]: "laptop.truncate (with_score u b l) = l"
  by (simp add: with_score_def laptop.defs)


lemma filter_laptops_subseq: "subseq (filter_laptops cat c) cat"
  unfolding filter_laptops_def Let_def
  by (auto split: option.splits intro: subseq_order.order_trans[OF subseq_filter_left])


lemmas table_defs = usage_reqs_of_def usage_requirements_def
  GAMING_def BUSINESS_def STUDENT_def CREATIVE_def PROGRAMMING_def GENERAL_def
  gaming_reqs_def business_reqs_def student_reqs_def creative_reqs_def programming_reqs_def
  general_reqs_def

lemmas engine_defs = get_recommendations_def get_recommendations_run_def filter_laptops_def
  strict_call_def relaxed_call_def table_defs get_or_def has_gpu_def score_laptops_def slice_to_def
  example_catalog_def dell_example_def apple_example_def lower_def lower_char_def







lemma lower_chars:
  "lower ''Dell'' = ''dell''" "lower ''Apple'' = ''apple''"
  by (simp_all add: lower_def lower_char_def)






lemma member_in_table:
  assumes "u \<in> set UsageType_members"
  shows "usage_requirements u = Some (usage_reqs_of u)"
  using assms by (auto simp: UsageType_members_def table_defs)





text \<open>
  C5. A usage type that is not in the requirement table: the strict pass falls back to the
  general profile, but when it returns nothing the arguments of the relaxed pass subscript
  the table directly and \<^verbatim>\<open>get_recommendations\<close> raises \<^verbatim>\<open>KeyError\<close>.
\<close>

theorem unknown_usage_type_key_error:
  "filter_laptops example_catalog (strict_call 1000 ''tablet'' None None None False) = []
   \<and> get_recommendations example_catalog 1000 ''tablet'' None None None False 5 = Inl KeyError"
  by (simp add: get_recommendations_def get_recommendations_run_def relaxed_call_def
      filter_laptops_def strict_call_def table_defs get_or_def has_gpu_def
      example_catalog_def dell_example_def apple_example_def)

lemma sorted_reverse_descending:
  "sorted_wrt (\<lambda>a b. key a \<ge> key b) (sorted_reverse key xs)"
proof -
  have "sorted (map (\<lambda>x. - key x) (sort_key (\<lambda>x. - key x) xs))"
    by (rule sorted_sort_key)
  then show ?thesis
    by (simp add: sorted_reverse_def sorted_map)
qed

lemma slice_to_take: "\<exists>n. slice_to limit xs = take n xs"
  by (auto simp: slice_to_def)

lemma sorted_reverse_stable:
  "filter (\<lambda>p. key p = s) (sorted_reverse key xs) = filter (\<lambda>p. key p = s) xs"
  using sort_key_stable[of "\<lambda>x. - key x" "- s" xs]
  by (simp add: sorted_reverse_def)

lemma subseq_take_self: "subseq (take n xs) xs"
  by (metis append_take_drop_id subseq_order.order_refl list_emb_append2 subseq_rev_drop_many
      list_emb_prefix)

lemma truncate_scored: "map laptop.truncate (map (with_score u b) ls) = ls"
  by (induction ls) simp_all

lemma ranked_properties:
  assumes "score_laptops ls u budget = Inr out"
  shows "sorted_wrt (\<lambda>a b. score a \<ge> score b) (slice_to limit out)"
    and "subseq (map laptop.truncate (filter (\<lambda>p. score p = s) (slice_to limit out))) ls"
proof -
  obtain n where n: "slice_to limit out = take n out"
    using slice_to_take by blast
  have out: "out = sorted_reverse score (map (with_score u budget) ls)"
    using assms by (auto simp: score_laptops_def sorted_reverse_def split: if_splits)
  have "sorted_wrt (\<lambda>a b. score a \<ge> score b) out"
    unfolding out by (rule sorted_reverse_descending)
  then show "sorted_wrt (\<lambda>a b. score a \<ge> score b) (slice_to limit out)"
    unfolding n by (rule sorted_wrt_take)
  have "subseq (filter (\<lambda>p. score p = s) (take n out)) (filter (\<lambda>p. score p = s) out)"
    by (rule subseq_filter[OF subseq_take_self])
  also have "filter (\<lambda>p. score p = s) out
      = filter (\<lambda>p. score p = s) (map (with_score u budget) ls)"
    unfolding out by (rule sorted_reverse_stable)
  finally have "subseq (map laptop.truncate (filter (\<lambda>p. score p = s) (take n out)))
      (map laptop.truncate (filter (\<lambda>p. score p = s) (map (with_score u budget) ls)))"
    by (rule subseq_map)
  moreover have "subseq (map laptop.truncate (filter (\<lambda>p. score p = s) (map (with_score u budget) ls)))
      (map laptop.truncate (map (with_score u budget) ls))"
    by (rule subseq_map[OF subseq_filter_left])
  ultimately have "subseq (map laptop.truncate (filter (\<lambda>p. score p = s) (take n out)))
      (map laptop.truncate (map (with_score u budget) ls))"
    by (rule subseq_order.order_trans)
  then show "subseq (map laptop.truncate (filter (\<lambda>p. score p = s) (slice_to limit out))) ls"
    unfolding n truncate_scored .
qed

lemma score_laptops_returns:
  "budget \<noteq> 0 \<Longrightarrow> \<exists>out. score_laptops ls u budget = Inr out"
  by (simp add: score_laptops_def)

text \<open>
  C3. For a positive budget, a limit that is not negative and a usage type of the
  enumeration, \<^verbatim>\<open>get_recommendations\<close> returns a list; the list is in non-increasing
  order of score, it is no longer than the limit, and for every score value the returned
  products with exactly that score are, in order, a subsequence of the catalogue (ties keep
  catalogue order).
\<close>

theorem recommendations_ranked:
  assumes "0 < budget" and "0 \<le> limit" and "usage_type \<in> set UsageType_members"
  shows "\<exists>result.
           get_recommendations cat budget usage_type brand_preference min_ram min_storage
             prefer_gpu limit = Inr result
           \<and> sorted_wrt (\<lambda>a b. score a \<ge> score b) result
           \<and> length result \<le> nat limit
           \<and> (\<forall>s. subseq (map laptop.truncate (filter (\<lambda>p. score p = s) result)) cat)"
proof -
  define c1 where "c1 = strict_call budget usage_type brand_preference min_ram min_storage prefer_gpu"
  obtain c2 where c2: "relaxed_call budget usage_type prefer_gpu = Inr c2"
    using member_in_table[OF assms(3)] by (simp add: relaxed_call_def)
  define c where "c = (if filter_laptops cat c1 = [] then c2 else c1)"
  from assms(1) obtain out where out: "score_laptops (filter_laptops cat c) usage_type budget = Inr out"
    using score_laptops_returns[of budget] by fastforce
  have res: "get_recommendations cat budget usage_type brand_preference min_ram min_storage
             prefer_gpu limit = Inr (slice_to limit out)"
    using out c2
    by (auto simp: get_recommendations_def get_recommendations_run_def Let_def c_def c1_def)
  have "subseq (map laptop.truncate (filter (\<lambda>p. score p = s) (slice_to limit out))) cat" for s
    using ranked_properties(2)[OF out, of s limit] filter_laptops_subseq[of cat c]
    by (rule subseq_order.order_trans)
  with res ranked_properties(1)[OF out, of limit] length_slice_to[OF assms(2), of out]
  show ?thesis by blast
qed

theorem recommendations_ranked_witness:
  "(0::real) < 1300 \<and> (0::int) \<le> 5 \<and> GENERAL \<in> set UsageType_members
   \<and> (\<exists>result.
          get_recommendations example_catalog 1300 GENERAL None None None False 5 = Inr result
          \<and> sorted_wrt (\<lambda>a b. score a \<ge> score b) result
          \<and> length result \<le> nat 5
          \<and> (\<forall>s. subseq (map laptop.truncate (filter (\<lambda>p. score p = s) result))
                 example_catalog))"
  using recommendations_ranked[of 1300 5 GENERAL example_catalog None None None False]
  by (simp add: UsageType_members_def)

lemma without_display_fields [simp]:
  "price (without_display l) = price l" "ram (without_display l) = ram l"
  "storage (without_display l) = storage l" "brand (without_display l) = brand l"
  "gpu (without_display l) = gpu l" "processor (without_display l) = processor l"
  "battery_life (without_display l) = battery_life l" "weight (without_display l) = weight l"
  by (simp_all add: without_display_def)

lemma has_gpu_without_display [simp]: "has_gpu (without_display l) = has_gpu l"
  by (simp add: has_gpu_def)



lemma laptop_score_without_display [simp]:
  "laptop_score u b (without_display l) = laptop_score u b l"
  by (simp add: laptop_score_def processor_score_def)


lemma score_without_display [simp]: "score (without_display p) = score p"
  by (simp add: without_display_def)










section \<open>Properties of the matcher\<close>

lemma rmatch_sound_aux:
  "st' \<in> set (rmatch r st) \<Longrightarrow> \<exists>w \<in> lang r. fst (snd st) = w @ fst (snd st')"
proof (induction r st arbitrary: st' rule: rmatch.induct)
  case (6 a b p s g)
  from "6.prems" obtain st1 where
    a: "st1 \<in> set (rmatch a (p, s, g))" and b: "st' \<in> set (rmatch b st1)"
    by auto
  from "6.IH"(1)[OF a] obtain u where u: "u \<in> lang a" "s = u @ fst (snd st1)" by auto
  from "6.IH"(2)[OF a b] obtain v where v: "v \<in> lang b" "fst (snd st1) = v @ fst (snd st')"
    by blast
  from u v show ?case by auto
next
  case (8 a p s g)
  from "8.prems" consider
    (more) st1 where "st1 \<in> set (rmatch a (p, s, g))" "length (fst (snd st1)) < length s"
      "st' \<in> set (rmatch (Star a) st1)"
    | (stop) "st' = (p, s, g)"
    by (auto split: if_splits)
  then show ?case
  proof cases
    case more
    from "8.IH"(1)[OF more(1)] obtain u where u: "u \<in> lang a" "s = u @ fst (snd st1)" by auto
    from "8.IH"(2)[OF more(1) more(2) more(3)]
    obtain v where v: "v \<in> lang (Star a)" "fst (snd st1) = v @ fst (snd st')" by auto
    from u v have "u @ v \<in> lang (Star a)" by (auto intro: star_step)
    with u v show ?thesis by auto
  next
    case stop
    then show ?thesis by (auto intro: star_empty)
  qed
next
  case (7 a b p s g)
  from "7.prems" have "st' \<in> set (rmatch a (p, s, g)) \<or> st' \<in> set (rmatch b (p, s, g))"
    by auto
  with "7.IH" show ?case by fastforce
qed (auto split: list.splits if_splits)

lemma rmatch_sound:
  "(p', s', g') \<in> set (rmatch r (p, s, g)) \<Longrightarrow> \<exists>w \<in> lang r. s = w @ s'"
  using rmatch_sound_aux[of "(p', s', g')" r "(p, s, g)"] by simp


lemma rmatch_keeps_group:
  "st' \<in> set (rmatch r st) \<Longrightarrow> snd (snd st) \<noteq> None \<Longrightarrow> snd (snd st') \<noteq> None"
proof (induction r st arbitrary: st' rule: rmatch.induct)
  case (6 a b p s g)
  from "6.prems" obtain st1 where
    a: "st1 \<in> set (rmatch a (p, s, g))" and b: "st' \<in> set (rmatch b st1)"
    by auto
  from "6.IH"(1)[OF a] "6.prems"(2) have "snd (snd st1) \<noteq> None" by simp
  with "6.IH"(2)[OF a b] show ?case by simp
next
  case (7 a b p s g)
  from "7.prems" have "st' \<in> set (rmatch a (p, s, g)) \<or> st' \<in> set (rmatch b (p, s, g))"
    by auto
  with "7.IH" "7.prems"(2) show ?case by blast
next
  case (8 a p s g)
  from "8.prems" consider
    (more) st1 where "st1 \<in> set (rmatch a (p, s, g))" "length (fst (snd st1)) < length s"
      "st' \<in> set (rmatch (Star a) st1)"
    | (stop) "st' = (p, s, g)"
    by (auto split: if_splits)
  then show ?case
  proof cases
    case more
    from "8.IH"(1)[OF more(1)] "8.prems"(2) have "snd (snd st1) \<noteq> None" by simp
    with "8.IH"(2)[OF more(1) more(2) more(3)] show ?thesis by simp
  next
    case stop
    with "8.prems"(2) show ?thesis by simp
  qed
qed (auto split: list.splits if_splits)

lemma rmatch_sets_group:
  "st' \<in> set (rmatch r st) \<Longrightarrow> sets_group r \<Longrightarrow> snd (snd st') \<noteq> None"
proof (induction r st arbitrary: st' rule: rmatch.induct)
  case (6 a b p s g)
  from "6.prems" obtain st1 where
    a: "st1 \<in> set (rmatch a (p, s, g))" and b: "st' \<in> set (rmatch b st1)"
    by auto
  from "6.prems"(2) consider "sets_group a" | "sets_group b" by auto
  then show ?case
  proof cases
    case 1
    from "6.IH"(1)[OF a 1] rmatch_keeps_group[OF b] show ?thesis by simp
  next
    case 2
    from "6.IH"(2)[OF a b 2] show ?thesis .
  qed
next
  case (7 a b p s g)
  from "7.prems" consider (left) "st' \<in> set (rmatch a (p, s, g))"
    | (right) "st' \<in> set (rmatch b (p, s, g))"
    by auto
  then show ?case
  proof cases
    case left
    from "7.IH"(1)[OF left] "7.prems"(2) show ?thesis by simp
  next
    case right
    from "7.IH"(2)[OF right] "7.prems"(2) show ?thesis by simp
  qed
qed (auto split: list.splits if_splits)

lemma rmatch_group_located:
  "st' \<in> set (rmatch r st) \<Longrightarrow>
     snd (snd st') = snd (snd st)
     \<or> (\<exists>u w v. w \<in> group_lang r \<and> snd (snd st') = Some w
                  \<and> fst (snd st) = u @ w @ v @ fst (snd st'))"
proof (induction r st arbitrary: st' rule: rmatch.induct)
  case (6 a b p s g)
  from "6.prems" obtain st1 where
    a: "st1 \<in> set (rmatch a (p, s, g))" and b: "st' \<in> set (rmatch b st1)"
    by auto
  from rmatch_sound_aux[OF a] obtain x where x: "s = x @ fst (snd st1)" by auto
  from rmatch_sound_aux[OF b] obtain y where y: "fst (snd st1) = y @ fst (snd st')" by auto
  from "6.IH"(2)[OF a b] consider
    (same) "snd (snd st') = snd (snd st1)"
    | (inb) u w v where "w \<in> group_lang b" "snd (snd st') = Some w"
        "fst (snd st1) = u @ w @ v @ fst (snd st')"
    by blast
  then show ?case
  proof cases
    case same
    from "6.IH"(1)[OF a] consider
      (unchanged) "snd (snd st1) = g"
      | (ina) u w v where "w \<in> group_lang a" "snd (snd st1) = Some w"
          "s = u @ w @ v @ fst (snd st1)"
      by auto
    then show ?thesis
    proof cases
      case unchanged
      with same show ?thesis by simp
    next
      case ina
      from ina same y show ?thesis
        by (intro disjI2 exI[of _ u] exI[of _ w] exI[of _ "v @ y"]) simp
    qed
  next
    case inb
    from inb x show ?thesis
      by (intro disjI2 exI[of _ "x @ u"] exI[of _ w] exI[of _ v]) simp
  qed
next
  case (7 a b p s g)
  from "7.prems" consider (left) "st' \<in> set (rmatch a (p, s, g))"
    | (right) "st' \<in> set (rmatch b (p, s, g))"
    by auto
  then show ?case
  proof cases
    case left
    from "7.IH"(1)[OF left] show ?thesis by auto
  next
    case right
    from "7.IH"(2)[OF right] show ?thesis by auto
  qed
next
  case (8 a p s g)
  from "8.prems" consider
    (more) st1 where "st1 \<in> set (rmatch a (p, s, g))" "length (fst (snd st1)) < length s"
      "st' \<in> set (rmatch (Star a) st1)"
    | (stop) "st' = (p, s, g)"
    by (auto split: if_splits)
  then show ?case
  proof cases
    case more
    from rmatch_sound_aux[OF more(1)] obtain x where x: "s = x @ fst (snd st1)" by auto
    from rmatch_sound_aux[OF more(3)] obtain y where y: "fst (snd st1) = y @ fst (snd st')"
      by auto
    from "8.IH"(2)[OF more(1) more(2) more(3)] consider
      (same) "snd (snd st') = snd (snd st1)"
      | (later) u w v where "w \<in> group_lang a" "snd (snd st') = Some w"
          "fst (snd st1) = u @ w @ v @ fst (snd st')"
      by auto
    then show ?thesis
    proof cases
      case same
      from "8.IH"(1)[OF more(1)] consider
        (unchanged) "snd (snd st1) = g"
        | (first) u w v where "w \<in> group_lang a" "snd (snd st1) = Some w"
            "s = u @ w @ v @ fst (snd st1)"
        by auto
      then show ?thesis
      proof cases
        case unchanged
        with same show ?thesis by simp
      next
        case first
        from first same y show ?thesis
          by (intro disjI2 exI[of _ u] exI[of _ w] exI[of _ "v @ y"]) simp
      qed
    next
      case later
      from later x show ?thesis
        by (intro disjI2 exI[of _ "x @ u"] exI[of _ w] exI[of _ v]) simp
    qed
  next
    case stop
    then show ?thesis by simp
  qed
next
  case (9 a p s g)
  from "9.prems" obtain st1 where st1: "st1 \<in> set (rmatch a (p, s, g))"
    and st': "st' = (fst st1, fst (snd st1), Some (take (length s - length (fst (snd st1))) s))"
    by auto
  from rmatch_sound_aux[OF st1] obtain w where w: "w \<in> lang a" "s = w @ fst (snd st1)" by auto
  then have "take (length s - length (fst (snd st1))) s = w" by simp
  with w st' show ?case
    by (intro disjI2 exI[of _ "[]"] exI[of _ w]) simp
qed (auto split: list.splits if_splits)

lemma rmatch_first_located:
  assumes "rmatch r (p, s, None) = st # rest" and "sets_group r"
  shows "\<exists>w \<in> group_lang r. snd (snd st) = Some w \<and> (\<exists>u v. s = u @ w @ v)"
proof -
  from assms(1) have mem: "st \<in> set (rmatch r (p, s, None))" by simp
  from rmatch_sets_group[OF mem assms(2)] rmatch_group_located[OF mem]
  obtain u w v where "w \<in> group_lang r" "snd (snd st) = Some w" "s = u @ w @ v @ fst (snd st)"
    by auto
  then show ?thesis by blast
qed

text \<open>
  What \<^verbatim>\<open>re.search\<close> reports for a pattern whose group takes part in every match: the
  group holds a text the group can match, and that text occurs in the subject.
\<close>

lemma search_from_group:
  assumes "search_from r p s = Some m" and "sets_group r"
  shows "\<exists>w \<in> group_lang r. group1 m = Some w \<and> (\<exists>u v. s = u @ w @ v)"
  using assms
proof (induction r p s rule: search_from.induct)
  case (1 r p)
  then obtain st rest where st: "rmatch r (p, [], None) = st # rest" and m: "group1 m = snd (snd st)"
    by (auto split: list.splits)
  from rmatch_first_located[OF st "1.prems"(2)] m show ?case by simp
next
  case (2 r p c cs)
  show ?case
  proof (cases "rmatch r (p, c # cs, None)")
    case Nil
    with 2 obtain w where "w \<in> group_lang r" "group1 m = Some w" "\<exists>u v. cs = u @ w @ v"
      by auto
    moreover from this(3) obtain u v where "c # cs = (c # u) @ w @ v" by auto
    ultimately show ?thesis by blast
  next
    case (Cons st rest)
    from Cons "2.prems"(1) have m: "group1 m = snd (snd st)" by auto
    from rmatch_first_located[OF Cons "2.prems"(2)] m show ?thesis by simp
  qed
qed

lemma re_search_group:
  "re_search r s = Some m \<Longrightarrow> sets_group r \<Longrightarrow>
     \<exists>w \<in> group_lang r. group1 m = Some w \<and> (\<exists>u v. s = u @ w @ v)"
  unfolding re_search_def by (rule search_from_group)

section \<open>Digits and numerals\<close>

declare str_nat.simps [simp del]

lemma star_digits:
  "v \<in> star {[d] | d. is_digit d} \<Longrightarrow> list_all is_digit v"
  by (induction rule: star.induct) auto

lemma lang_plus_digit:
  assumes "w \<in> lang (Plus Digit)"
  shows "w \<noteq> [] \<and> list_all is_digit w"
  using assms star_digits by (auto simp: Plus_def)

lemma digit_char_props:
  assumes "n < 10"
  shows "digit_value (digit_char n) = n" and "is_digit (digit_char n)"
proof -
  from assms have "n \<in> {0,1,2,3,4,5,6,7,8,9}" by auto
  then show "digit_value (digit_char n) = n"
    by (elim insertE emptyE) (simp_all add: digit_value_def digit_char_def)
  from assms have "n \<in> {0,1,2,3,4,5,6,7,8,9}" by auto
  then show "is_digit (digit_char n)"
    by (elim insertE emptyE) (simp_all add: is_digit_def digit_char_def)
qed

lemma decimal_snoc: "decimal (s @ [c]) = 10 * decimal s + digit_value c"
  by (simp add: decimal_def)

lemma decimal_str_nat: "decimal (str_nat n) = n"
proof (induction n rule: str_nat.induct)
  case (1 n)
  show ?case
  proof (cases "n < 10")
    case True
    then show ?thesis
      by (simp add: str_nat.simps[of n] decimal_def digit_char_props)
  next
    case False
    with 1 show ?thesis
      by (simp add: str_nat.simps[of n] decimal_snoc digit_char_props)
  qed
qed

lemma digits_str_nat: "list_all is_digit (str_nat n)"
proof (induction n rule: str_nat.induct)
  case (1 n)
  then show ?case
    by (cases "n < 10") (simp_all add: str_nat.simps[of n] digit_char_props)
qed

lemma length_str_nat_1: "n < 10 \<Longrightarrow> length (str_nat n) = 1"
  by (simp add: str_nat.simps[of n])

lemma length_str_nat_2: "10 \<le> n \<Longrightarrow> n < 100 \<Longrightarrow> length (str_nat n) = 2"
  using length_str_nat_1[of "n div 10"] by (simp add: str_nat.simps[of n])

lemma length_str_nat_3: "100 \<le> n \<Longrightarrow> n < 1000 \<Longrightarrow> length (str_nat n) = 3"
  using length_str_nat_2[of "n div 10"] by (simp add: str_nat.simps[of n])

lemma length_str_nat_4: "1000 \<le> n \<Longrightarrow> n < 10000 \<Longrightarrow> length (str_nat n) = 4"
  using length_str_nat_3[of "n div 10"] by (simp add: str_nat.simps[of n])

lemma length_str_nat_5: "10000 \<le> n \<Longrightarrow> n < 100000 \<Longrightarrow> length (str_nat n) = 5"
  using length_str_nat_4[of "n div 10"] by (simp add: str_nat.simps[of n])

lemma length_str_nat_token:
  assumes "100 \<le> n" and "n \<le> 99999"
  shows "length (str_nat n) \<in> {3, 4, 5}"
proof -
  from assms consider "n < 1000" | "1000 \<le> n" "n < 10000" | "10000 \<le> n" "n < 100000"
    by linarith
  then show ?thesis
    using assms(1) length_str_nat_3 length_str_nat_4 length_str_nat_5 by cases auto
qed

section \<open>What the budget group captures\<close>

lemma lower_char_comma: "lower_char d = lower_char CHR '','' \<Longrightarrow> d = CHR '',''"
  by (auto simp: lower_char_def split: if_splits)

lemma not_digit_comma: "\<not> is_digit CHR '',''"
  by (simp add: is_digit_def)

lemma Times_3: "Times 3 r = Seq r (Seq r (Seq r Eps))"
  by (simp add: eval_nat_numeral)

lemma AtMost_2: "AtMost 2 r = Opt (Seq r (Opt (Seq r Eps)))"
  by (simp add: eval_nat_numeral)

lemma Rep_3_5: "Rep 3 5 r = Seq (Seq r (Seq r (Seq r Eps))) (Opt (Seq r (Opt (Seq r Eps))))"
  by (simp add: Rep_def Times_3 AtMost_2)

lemma lang_comma_group:
  "u \<in> lang (Seq (Lit CHR '','') (Times 3 Digit)) \<Longrightarrow>
     list_all (\<lambda>x. is_digit x \<or> x = CHR '','') u"
  by (auto simp: Times_3 dest: lower_char_comma)

lemma star_comma_groups:
  "v \<in> star (lang (Seq (Lit CHR '','') (Times 3 Digit))) \<Longrightarrow>
     list_all (\<lambda>x. is_digit x \<or> x = CHR '','') v"
proof (induction rule: star.induct)
  case star_empty
  show ?case by simp
next
  case (star_step u v)
  from lang_comma_group[OF star_step.hyps(1)] star_step.IH show ?case by simp
qed

lemma lang_amount:
  assumes "w \<in> lang amount"
  shows "\<exists>a b c rest. w = a # b # c # rest \<and> is_digit a \<and> is_digit b \<and> is_digit c
           \<and> list_all (\<lambda>x. is_digit x \<or> x = CHR '','') rest"
proof -
  from assms obtain h t where w: "w = h @ t" and h: "h \<in> lang (Rep 3 5 Digit)"
    and t: "t \<in> star (lang (Seq (Lit CHR '','') (Times 3 Digit)))"
    by (auto simp: amount_def)
  from h obtain a b c h' where h': "h = a # b # c # h'" "is_digit a" "is_digit b" "is_digit c"
    "list_all is_digit h'"
    by (auto simp: Rep_3_5 Opt_def)
  from h'(5) have "list_all (\<lambda>x. is_digit x \<or> x = CHR '','') h'"
    by (induction h') auto
  with star_comma_groups[OF t] h' w show ?thesis by simp
qed

lemma remove_commas_digits:
  "list_all (\<lambda>x. is_digit x \<or> x = CHR '','') s \<Longrightarrow> list_all is_digit (remove_commas s)"
  by (induction s) (auto simp: remove_commas_def)

lemma foldl_decimal_acc:
  "foldl (\<lambda>n c. 10 * n + digit_value c) k s
     = k * 10 ^ length s + foldl (\<lambda>n c. 10 * n + digit_value c) 0 s"
proof (induction s arbitrary: k)
  case Nil
  show ?case by simp
next
  case (Cons c s)
  let ?f = "\<lambda>n c. 10 * n + digit_value c"
  have "foldl ?f k (c # s) = foldl ?f (10 * k + digit_value c) s" by simp
  also have "\<dots> = (10 * k + digit_value c) * 10 ^ length s + foldl ?f 0 s"
    by (rule Cons.IH)
  also have "\<dots> = k * 10 ^ length (c # s) + (digit_value c * 10 ^ length s + foldl ?f 0 s)"
    by (simp add: algebra_simps)
  also have "digit_value c * 10 ^ length s + foldl ?f 0 s = foldl ?f (digit_value c) s"
    by (rule Cons.IH[symmetric])
  also have "foldl ?f (digit_value c) s = foldl ?f 0 (c # s)" by simp
  finally show ?case .
qed

lemma decimal_Cons: "decimal (d # s) = digit_value d * 10 ^ length s + decimal s"
  using foldl_decimal_acc[of "digit_value d" s] by (simp add: decimal_def)

lemma digit_value_leading:
  "is_digit d \<Longrightarrow> d \<noteq> CHR ''0'' \<Longrightarrow> 1 \<le> digit_value d"
  by (auto simp: is_digit_def digit_value_def)

lemma decimal_three_digits:
  assumes "is_digit a" and "a \<noteq> CHR ''0''"
  shows "100 \<le> decimal (a # b # c # s)"
proof -
  have p: "(10::nat) ^ 2 \<le> 10 ^ length (b # c # s)"
    by (rule power_increasing) simp_all
  have "(100::nat) = 1 * 10 ^ 2" by simp
  also have "\<dots> \<le> digit_value a * 10 ^ length (b # c # s)"
    by (rule mult_le_mono[OF digit_value_leading[OF assms] p])
  also have "\<dots> \<le> decimal (a # b # c # s)"
    by (simp add: decimal_Cons[of a])
  finally show ?thesis .
qed

text \<open>The text a budget pattern captures always converts, and it has three leading digits.\<close>

lemma amount_converts:
  assumes "w \<in> lang amount"
  shows "py_float (remove_commas w) = Some (real (decimal (remove_commas w)))"
    and "3 \<le> length w" and "digits3 w"
    and "starts_with w ''0'' \<or> 100 \<le> decimal (remove_commas w)"
proof -
  from lang_amount[OF assms] obtain a b c rest where w: "w = a # b # c # rest"
    and d: "is_digit a" "is_digit b" "is_digit c"
    and rest: "list_all (\<lambda>x. is_digit x \<or> x = CHR '','') rest"
    by blast
  from d not_digit_comma have ne: "a \<noteq> CHR '',''" "b \<noteq> CHR '',''" "c \<noteq> CHR '',''" by auto
  then have rc: "remove_commas w = a # b # c # remove_commas rest"
    by (simp add: w remove_commas_def)
  from remove_commas_digits[OF rest] d rc
  show "py_float (remove_commas w) = Some (real (decimal (remove_commas w)))"
    by (simp add: py_float_def)
  show "3 \<le> length w" by (simp add: w)
  show "digits3 w" using d by (simp add: w)
  show "starts_with w ''0'' \<or> 100 \<le> decimal (remove_commas w)"
  proof (cases "a = CHR ''0''")
    case True
    then show ?thesis by (simp add: w)
  next
    case False
    with decimal_three_digits[OF d(1)] rc show ?thesis by simp
  qed
qed

lemma budget_patterns_group:
  "pattern \<in> set budget_patterns \<Longrightarrow> sets_group pattern \<and> group_lang pattern = lang amount"
  by (auto simp: budget_patterns_def Opt_def Words_def)

section \<open>Properties of preference extraction\<close>


lemma extract_budget_result:
  assumes "\<forall>pattern \<in> set ps. sets_group pattern \<and> group_lang pattern = lang amount"
  shows "(extract_budget ps message = Inr None)
       \<or> (\<exists>pattern \<in> set ps. \<exists>m w. re_search pattern message = Some m \<and> group1 m = Some w
             \<and> w \<in> lang amount \<and> (\<exists>u v. message = u @ w @ v)
             \<and> extract_budget ps message = Inr (Some (real (decimal (remove_commas w)))))"
  using assms
proof (induction ps)
  case Nil
  show ?case by simp
next
  case (Cons pattern ps)
  show ?case
  proof (cases "re_search pattern message")
    case None
    with Cons show ?thesis by auto
  next
    case (Some m)
    from Cons.prems have g: "sets_group pattern" "group_lang pattern = lang amount" by auto
    from re_search_group[OF Some g(1)] g(2) obtain w
      where w: "w \<in> lang amount" "group1 m = Some w" "\<exists>u v. message = u @ w @ v"
      by auto
    from amount_converts(1)[OF w(1)] Some w(2)
    have "extract_budget (pattern # ps) message = Inr (Some (real (decimal (remove_commas w))))"
      by simp
    with Some w show ?thesis by auto
  qed
qed

lemma sets_group_patterns:
  "sets_group brand_pattern" "sets_group ram_pattern" "sets_group storage_pattern"
  by (simp_all add: brand_pattern_def ram_pattern_def storage_pattern_def Opt_def Words_def
      Plus_def)

lemma group_lang_digits:
  "group_lang ram_pattern = lang (Plus Digit)" "group_lang storage_pattern = lang (Plus Digit)"
  by (simp_all add: ram_pattern_def storage_pattern_def Opt_def Words_def)

lemma extract_brand_returns: "\<exists>br. extract_brand message = Inr br"
proof (cases "re_search brand_pattern message")
  case None
  then show ?thesis by (simp add: extract_brand_def)
next
  case (Some m)
  from re_search_group[OF Some sets_group_patterns(1)] obtain w where "group1 m = Some w"
    by auto
  with Some show ?thesis by (simp add: extract_brand_def)
qed

lemma py_int_digits: "w \<in> lang (Plus Digit) \<Longrightarrow> py_int w = Some (int (decimal w))"
  using lang_plus_digit[of w] by (simp add: py_int_def)

lemma extract_ram_returns: "\<exists>r. extract_ram message = Inr r"
proof (cases "re_search ram_pattern message")
  case None
  then show ?thesis by (simp add: extract_ram_def)
next
  case (Some m)
  from re_search_group[OF Some sets_group_patterns(2)] obtain w where "group1 m = Some w"
    by auto
  with Some show ?thesis by (simp add: extract_ram_def)
qed

lemma extract_storage_result:
  assumes "re_search storage_pattern message = Some m"
  shows "\<exists>digits. group1 m = Some digits \<and> digits \<noteq> [] \<and> list_all is_digit digits
           \<and> extract_storage message
               = Inr (Some (if contains (upper (group0 m)) ''TB''
                            then int (decimal digits) * 1000 else int (decimal digits)))"
proof -
  from re_search_group[OF assms sets_group_patterns(3)] group_lang_digits(2)
  obtain w where w: "w \<in> lang (Plus Digit)" "group1 m = Some w" by auto
  from lang_plus_digit[OF w(1)] py_int_digits[OF w(1)] w(2) assms show ?thesis
    by (simp add: extract_storage_def)
qed

lemma extract_storage_returns: "\<exists>st. extract_storage message = Inr st"
proof (cases "re_search storage_pattern message")
  case None
  then show ?thesis by (simp add: extract_storage_def)
next
  case (Some m)
  from extract_storage_result[OF Some] show ?thesis by auto
qed

lemma extract_budget_returns: "\<exists>b. extract_budget budget_patterns message = Inr b"
  using extract_budget_result[of budget_patterns message] budget_patterns_group by auto

text \<open>Extraction never raises, and each field is what its own extractor found.\<close>

lemma extract_preferences_returns:
  "\<exists>b br r st. extract_budget budget_patterns message = Inr b
     \<and> extract_brand message = Inr br \<and> extract_ram message = Inr r
     \<and> extract_storage message = Inr st
     \<and> extract_preferences message
         = Inr \<lparr> pref_budget = b, pref_usage_type = extract_usage_type message,
                 pref_brand_preference = br, pref_min_ram = r, pref_min_storage = st,
                 pref_prefer_gpu = extract_gpu message \<rparr>"
proof -
  from extract_budget_returns obtain b where b: "extract_budget budget_patterns message = Inr b"
    by blast
  from extract_brand_returns obtain br where br: "extract_brand message = Inr br" by blast
  from extract_ram_returns obtain r where r: "extract_ram message = Inr r" by blast
  from extract_storage_returns obtain st where st: "extract_storage message = Inr st" by blast
  from b br r st show ?thesis by (simp add: extract_preferences_def)
qed




subsection \<open>Extraction on concrete utterances\<close>








section \<open>Properties of the conversation coordinator\<close>

lemma extract_preferences_total: "\<exists>extracted. extract_preferences message = Inr extracted"
  using extract_preferences_returns[of message] by auto

lemma pref_keys_update: "set (pref_keys old) \<subseteq> set (pref_keys (update_prefs old new))"
  by (auto simp: pref_keys_def update_prefs_def override_def split: option.splits if_splits)

lemma bot_reply_stores:
  "\<exists>conv'. fst (bot_reply env conversations cid conv response_text calls) cid = Some conv'
     \<and> preferences conv' = preferences conv"
  by (simp add: bot_reply_def)

lemma respond_stores:
  "\<exists>conv'. fst (respond env laptop_data conversations cid conv message) cid = Some conv'
     \<and> preferences conv' = preferences conv"
proof -
  have greet: "\<exists>conv'. fst (bot_reply env conversations cid
      (conv\<lparr> stage := ''getting_preferences'' \<rparr>) greeting_text []) cid = Some conv'
     \<and> preferences conv' = preferences conv"
    using bot_reply_stores[of env conversations cid "conv\<lparr> stage := ''getting_preferences'' \<rparr>"]
    by simp
  show ?thesis
    unfolding respond_def
    using greet bot_reply_stores[of env conversations cid conv]
    by (simp split: sum.splits)
qed


lemma process_message_respond:
  assumes "extract_preferences (strip (request_message request)) = Inr extracted"
  shows "process_message env laptop_data conversations request
         = respond env laptop_data conversations (resolve_conversation_id env request)
             ((case conversations (resolve_conversation_id env request) of
                 None \<Rightarrow> \<lparr> preferences = no_prefs, messages = [], stage = ''greeting'' \<rparr>
               | Some c \<Rightarrow> c)
              \<lparr> messages := messages (case conversations (resolve_conversation_id env request) of
                   None \<Rightarrow> \<lparr> preferences = no_prefs, messages = [], stage = ''greeting'' \<rparr>
                 | Some c \<Rightarrow> c)
                 @ [\<lparr> msg_text = strip (request_message request), msg_sender = ''user'',
                      msg_timestamp = now_user env \<rparr>],
                preferences := update_prefs
                  (preferences (case conversations (resolve_conversation_id env request) of
                     None \<Rightarrow> \<lparr> preferences = no_prefs, messages = [], stage = ''greeting'' \<rparr>
                   | Some c \<Rightarrow> c)) extracted \<rparr>)
             (strip (request_message request))"
  by (simp add: process_message_def Let_def assms)

lemma process_message_stores:
  assumes "extract_preferences (strip (request_message request)) = Inr extracted"
  shows "\<exists>conv'. fst (process_message env laptop_data conversations request)
                   (resolve_conversation_id env request) = Some conv'
           \<and> preferences conv'
               = update_prefs (case conversations (resolve_conversation_id env request) of
                                 None \<Rightarrow> no_prefs | Some c \<Rightarrow> preferences c) extracted"
proof -
  let ?cid = "resolve_conversation_id env request"
  let ?c0 = "case conversations ?cid of
               None \<Rightarrow> \<lparr> preferences = no_prefs, messages = [], stage = ''greeting'' \<rparr>
             | Some c \<Rightarrow> c"
  let ?c2 = "?c0\<lparr> messages := messages ?c0
                 @ [\<lparr> msg_text = strip (request_message request), msg_sender = ''user'',
                      msg_timestamp = now_user env \<rparr>],
               preferences := update_prefs (preferences ?c0) extracted \<rparr>"
  from respond_stores[of env laptop_data conversations ?cid ?c2 "strip (request_message request)"]
  obtain conv' where c: "fst (respond env laptop_data conversations ?cid ?c2
        (strip (request_message request))) ?cid = Some conv'"
      "preferences conv' = preferences ?c2"
    by blast
  have old: "preferences ?c0 = (case conversations ?cid of
      None \<Rightarrow> no_prefs | Some c \<Rightarrow> preferences c)"
    by (cases "conversations ?cid") simp_all
  have "preferences ?c2 = update_prefs (preferences ?c0) extracted" by simp
  with c old process_message_respond[OF assms, of env laptop_data conversations]
  show ?thesis by simp
qed

text \<open>
  C9. For every conversation table and every request, \<^verbatim>\<open>process_message\<close> stores
  under the conversation's identifier the previous preferences updated with everything
  extracted from the utterance, whichever branch answers the turn (the greeting branch
  included, and also when the engine raises), and every key that was present before the
  turn is present after it.
\<close>

theorem preferences_merged_before_branching:
  assumes "old = (case conversations (resolve_conversation_id env request) of
                    None \<Rightarrow> no_prefs | Some c \<Rightarrow> preferences c)"
  shows "\<exists>extracted conv'.
           extract_preferences (strip (request_message request)) = Inr extracted
           \<and> fst (process_message env laptop_data conversations request)
                 (resolve_conversation_id env request) = Some conv'
           \<and> preferences conv' = update_prefs old extracted
           \<and> set (pref_keys old) \<subseteq> set (pref_keys (preferences conv'))"
proof -
  from extract_preferences_total obtain extracted
    where e: "extract_preferences (strip (request_message request)) = Inr extracted" by blast
  from process_message_stores[OF e, of env laptop_data conversations] assms obtain conv'
    where c: "fst (process_message env laptop_data conversations request)
                (resolve_conversation_id env request) = Some conv'"
      "preferences conv' = update_prefs old extracted" by auto
  from c(2) pref_keys_update[of old extracted]
  have "set (pref_keys old) \<subseteq> set (pref_keys (preferences conv'))" by simp
  with e c show ?thesis by blast
qed




subsection \<open>Two turns of a conversation\<close>




lemma example_greeting_turn:
  "no_prefs = (case Map.empty (resolve_conversation_id example_environment
                                 example_greeting_request) of
                 None \<Rightarrow> no_prefs | Some c \<Rightarrow> preferences c)"
  by simp

lemma example_greeting_turn_result:
  "is_greeting (strip (request_message example_greeting_request))"
  "map_option preferences
     (fst (process_message example_environment example_catalog Map.empty
             example_greeting_request)
        (resolve_conversation_id example_environment example_greeting_request))
   = Some \<lparr> pref_budget = Some 1300, pref_usage_type = Some GAMING,
              pref_brand_preference = None, pref_min_ram = None,
              pref_min_storage = None, pref_prefer_gpu = None \<rparr>"
  "map_sum id response_message
     (snd (snd (process_message example_environment example_catalog Map.empty
                  example_greeting_request))) = Inr greeting_text"
  by code_simp+

theorem preferences_merged_before_branching_witness:
  "no_prefs = (case Map.empty (resolve_conversation_id example_environment
                                 example_greeting_request) of
                 None \<Rightarrow> no_prefs | Some c \<Rightarrow> preferences c)
   \<and> (\<exists>extracted conv'.
         extract_preferences (strip (request_message example_greeting_request)) = Inr extracted
         \<and> fst (process_message example_environment example_catalog Map.empty
                   example_greeting_request)
               (resolve_conversation_id example_environment example_greeting_request)
             = Some conv'
         \<and> preferences conv' = update_prefs no_prefs extracted
         \<and> set (pref_keys no_prefs) \<subseteq> set (pref_keys (preferences conv')))
   \<and> is_greeting (strip (request_message example_greeting_request))
   \<and> map_option preferences
       (fst (process_message example_environment example_catalog Map.empty
               example_greeting_request)
          (resolve_conversation_id example_environment example_greeting_request))
     = Some \<lparr> pref_budget = Some 1300, pref_usage_type = Some GAMING,
                pref_brand_preference = None, pref_min_ram = None,
                pref_min_storage = None, pref_prefer_gpu = None \<rparr>
   \<and> map_sum id response_message
       (snd (snd (process_message example_environment example_catalog Map.empty
                    example_greeting_request))) = Inr greeting_text"
  by (intro conjI example_greeting_turn example_greeting_turn_result
      preferences_merged_before_branching[where conversations = Map.empty
        and env = example_environment and request = example_greeting_request
        and laptop_data = example_catalog, OF example_greeting_turn])

end
